theory Spec2Isabelle
  imports Main "HOL-Library.Char_ord" "HOL-Library.List_Lexorder"
begin

section \<open>Python strings\<close>

text \<open>
  Python strings are modelled as character lists; a character stands for a code point
  below 256. \<open>str.isspace\<close> and the regular expression class \<open>\s\<close> hold of the
  code points 9 to 13, 28 to 32, 133 and 160; \<open>\d\<close> holds of the ASCII digits.
\<close>

definition py_isspace :: "char \<Rightarrow> bool" where
  "py_isspace c =
     (let n = (of_char c :: nat)
      in (9 \<le> n \<and> n \<le> 13) \<or> (28 \<le> n \<and> n \<le> 32) \<or> n = 133 \<or> n = 160)"

definition is_digit :: "char \<Rightarrow> bool" where
  "is_digit c = (let n = (of_char c :: nat) in 48 \<le> n \<and> n \<le> 57)"

definition digit_val :: "char \<Rightarrow> nat" where
  "digit_val c = (of_char c :: nat) - 48"

definition lower_char :: "char \<Rightarrow> char" where
  "lower_char c =
     (let n = (of_char c :: nat)
      in if (65 \<le> n \<and> n \<le> 90) \<or> (192 \<le> n \<and> n \<le> 222 \<and> n \<noteq> 215)
         then char_of (n + 32) else c)"

text \<open>\<open>s.lower()\<close>, \<open>s.startswith(p)\<close>, \<open>s.endswith(p)\<close>, \<open>s.strip()\<close>, \<open>s.rstrip('/')\<close>\<close>

definition lower :: "string \<Rightarrow> string" where
  "lower s = map lower_char s"

definition startswith :: "string \<Rightarrow> string \<Rightarrow> bool" where
  "startswith s p = (take (length p) s = p)"

definition endswith :: "string \<Rightarrow> string \<Rightarrow> bool" where
  "endswith s p = (length p \<le> length s \<and> drop (length s - length p) s = p)"

definition lstrip :: "string \<Rightarrow> string" where
  "lstrip s = dropWhile py_isspace s"

definition rstrip :: "string \<Rightarrow> string" where
  "rstrip s = rev (dropWhile py_isspace (rev s))"

definition strip :: "string \<Rightarrow> string" where
  "strip s = rstrip (lstrip s)"

definition rstrip_char :: "char \<Rightarrow> string \<Rightarrow> string" where
  "rstrip_char c s = rev (dropWhile (\<lambda>x. x = c) (rev s))"

text \<open>\<open>s.split(c)\<close> for a one-character separator: always at least one part.\<close>

fun split_on :: "char \<Rightarrow> string \<Rightarrow> string list" where
  "split_on c [] = [[]]"
| "split_on c (x # xs) =
     (if x = c then [] # split_on c xs
      else (case split_on c xs of
              [] \<Rightarrow> [[x]]
            | p # ps \<Rightarrow> (x # p) # ps))"

text \<open>\<open>sep.join(parts)\<close>\<close>

fun join :: "string \<Rightarrow> string list \<Rightarrow> string" where
  "join sep [] = []"
| "join sep [p] = p"
| "join sep (p # q # ps) = p @ sep @ join sep (q # ps)"

text \<open>\<open>p in s\<close> for strings: \<open>p\<close> occurs in \<open>s\<close>.\<close>

fun contains :: "string \<Rightarrow> string \<Rightarrow> bool" where
  "contains [] p = (p = [])"
| "contains (x # xs) p = (startswith (x # xs) p \<or> contains xs p)"

text \<open>Decimal rendering of numbers, and zero-padded fields as \<open>%02d\<close> and \<open>%04d\<close> print them.\<close>

definition digit_char :: "nat \<Rightarrow> char" where
  "digit_char n = char_of (48 + n mod 10)"

fun nat_str :: "nat \<Rightarrow> string" where
  "nat_str n = (if n < 10 then [digit_char n] else nat_str (n div 10) @ [digit_char n])"

declare nat_str.simps [simp del]

definition int_str :: "int \<Rightarrow> string" where
  "int_str i = (if i < 0 then CHR ''-'' # nat_str (nat (- i)) else nat_str (nat i))"

definition pad :: "nat \<Rightarrow> nat \<Rightarrow> string" where
  "pad w n = replicate (w - length (nat_str n)) CHR ''0'' @ nat_str n"

text \<open>
  \<open>list.sort(key=..., reverse=True)\<close>: Python reverses the list, sorts it stably in
  ascending order and reverses it again, so entries with equal keys keep their order.
\<close>

definition sort_reverse :: "('a \<Rightarrow> 'k::linorder) \<Rightarrow> 'a list \<Rightarrow> 'a list" where
  "sort_reverse key xs = rev (sort_key key (rev xs))"

section \<open>Paths (pathlib, POSIX flavour)\<close>

text \<open>
  \<open>Path(s).as_posix()\<close>: the root is \<open>//\<close> for exactly two leading slashes, \<open>/\<close> for any
  other number of them; empty and \<open>.\<close> components are dropped; the empty path prints
  as \<open>.\<close>.
\<close>

definition path_root :: "string \<Rightarrow> string" where
  "path_root s =
     (if startswith s ''//'' \<and> \<not> startswith s ''///'' then ''//''
      else if startswith s ''/'' then ''/'' else [])"

definition path_rel_parts :: "string \<Rightarrow> string list" where
  "path_rel_parts s = filter (\<lambda>x. x \<noteq> [] \<and> x \<noteq> ''.'') (split_on CHR ''/'' s)"

definition as_posix :: "string \<Rightarrow> string" where
  "as_posix s =
     (let t = path_root s @ join ''/'' (path_rel_parts s)
      in if t = [] then ''.'' else t)"

text \<open>\<open>Path(s).name\<close> and \<open>Path(s).stem\<close>\<close>

definition path_name :: "string \<Rightarrow> string" where
  "path_name s = (case path_rel_parts s of [] \<Rightarrow> [] | ps \<Rightarrow> last ps)"

fun rfind_dot :: "string \<Rightarrow> nat option" where
  "rfind_dot [] = None"
| "rfind_dot (x # xs) =
     (case rfind_dot xs of
        Some i \<Rightarrow> Some (Suc i)
      | None \<Rightarrow> if x = CHR ''.'' then Some 0 else None)"

definition path_stem :: "string \<Rightarrow> string" where
  "path_stem s =
     (let name = path_name s
      in case rfind_dot name of
           None \<Rightarrow> name
         | Some i \<Rightarrow> if 0 < i \<and> i < length name - 1 then take i name else name)"

section \<open>Dates and times (datetime)\<close>

text \<open>
  A \<open>datetime.date\<close> and a \<open>datetime.datetime\<close>. \<open>dt_tzinfo\<close> is \<open>None\<close> for a naive
  value and the UTC offset in minutes for an aware one; \<open>timezone.utc\<close> is \<open>Some 0\<close>.
\<close>

record pydate =
  d_year :: nat
  d_month :: nat
  d_day :: nat

record pydatetime =
  dt_year :: nat
  dt_month :: nat
  dt_day :: nat
  dt_hour :: nat
  dt_minute :: nat
  dt_second :: nat
  dt_microsecond :: nat
  dt_tzinfo :: "int option"

definition timezone_utc :: "int option" where
  "timezone_utc = Some 0"

text \<open>\<open>d.replace(tzinfo=tz)\<close>\<close>

definition replace_tzinfo :: "pydatetime \<Rightarrow> int option \<Rightarrow> pydatetime" where
  "replace_tzinfo d tz = d\<lparr>dt_tzinfo := tz\<rparr>"

text \<open>\<open>datetime.combine(d, datetime.min.time())\<close>: midnight of the day, naive.\<close>

definition combine_midnight :: "pydate \<Rightarrow> pydatetime" where
  "combine_midnight d =
     \<lparr>dt_year = d_year d, dt_month = d_month d, dt_day = d_day d, dt_hour = 0,
      dt_minute = 0, dt_second = 0, dt_microsecond = 0, dt_tzinfo = None\<rparr>"

definition date_isoformat :: "pydate \<Rightarrow> string" where
  "date_isoformat d = pad 4 (d_year d) @ ''-'' @ pad 2 (d_month d) @ ''-'' @ pad 2 (d_day d)"

definition offset_str :: "int \<Rightarrow> string" where
  "offset_str off =
     (let a = nat \<bar>off\<bar>
      in (if off < 0 then ''-'' else ''+'') @ pad 2 (a div 60) @ '':'' @ pad 2 (a mod 60))"

text \<open>\<open>d.isoformat(sep)\<close>; \<open>str(d)\<close> is \<open>d.isoformat(' ')\<close>.\<close>

definition isoformat_sep :: "char \<Rightarrow> pydatetime \<Rightarrow> string" where
  "isoformat_sep sep d =
     pad 4 (dt_year d) @ ''-'' @ pad 2 (dt_month d) @ ''-'' @ pad 2 (dt_day d) @ [sep] @
     pad 2 (dt_hour d) @ '':'' @ pad 2 (dt_minute d) @ '':'' @ pad 2 (dt_second d) @
     (if dt_microsecond d = 0 then [] else ''.'' @ pad 6 (dt_microsecond d)) @
     (case dt_tzinfo d of None \<Rightarrow> [] | Some off \<Rightarrow> offset_str off)"

definition isoformat :: "pydatetime \<Rightarrow> string" where
  "isoformat d = isoformat_sep CHR ''T'' d"

section \<open>Frontmatter values\<close>

text \<open>
  The values a frontmatter mapping holds. A float is kept as its decimal literal
  (floating point is not modelled; \<open>str\<close> of it is taken to be the literal). \<open>VOther\<close>
  is a list or a dict, given by what \<open>str\<close>, \<open>json.dumps\<close> and \<open>bool\<close> make of it.
  A mapping is an association list in insertion order with distinct string keys.
\<close>

datatype fm_value =
    VNone
  | VBool bool
  | VInt int
  | VFloat string
  | VStr string
  | VDate pydate
  | VDateTime pydatetime
  | VOther string string bool

type_synonym fm_dict = "(string \<times> fm_value) list"

text \<open>\<open>str(v)\<close>\<close>

fun py_str :: "fm_value \<Rightarrow> string" where
  "py_str VNone = ''None''"
| "py_str (VBool b) = (if b then ''True'' else ''False'')"
| "py_str (VInt i) = int_str i"
| "py_str (VFloat lit) = lit"
| "py_str (VStr s) = s"
| "py_str (VDate d) = date_isoformat d"
| "py_str (VDateTime d) = isoformat_sep CHR '' '' d"
| "py_str (VOther s j b) = s"

text \<open>\<open>bool(v)\<close>: the truth value Python's \<open>if v\<close> tests.\<close>

fun truthy :: "fm_value \<Rightarrow> bool" where
  "truthy VNone = False"
| "truthy (VBool b) = b"
| "truthy (VInt i) = (i \<noteq> 0)"
| "truthy (VFloat lit) = (\<exists>c\<in>set lit. is_digit c \<and> c \<noteq> CHR ''0'')"
| "truthy (VStr s) = (s \<noteq> [])"
| "truthy (VDate d) = True"
| "truthy (VDateTime d) = True"
| "truthy (VOther s j b) = b"

text \<open>\<open>d.get(k)\<close> and the truth value of \<open>d.get(k)\<close>\<close>

definition dict_get :: "fm_dict \<Rightarrow> string \<Rightarrow> fm_value option" where
  "dict_get d k = map_of d k"

definition get_truthy :: "fm_dict \<Rightarrow> string \<Rightarrow> bool" where
  "get_truthy d k = (case dict_get d k of None \<Rightarrow> False | Some v \<Rightarrow> truthy v)"

section \<open>Frontmatter extraction (graphiti\_bridge/utils.py)\<close>

text \<open>
  The regular expression \<open>^---\s*\n(.*?)\n---\s*\n\<close> under \<open>re.match\<close> with
  \<open>re.DOTALL\<close>, as the backtracking matcher runs it. After the opening \<open>---\<close>, the
  greedy \<open>\s*\<close> followed by \<open>\n\<close> ends at a newline of the leading whitespace run, the
  last such newline tried first. The lazy group then takes the fewest characters after
  which \<open>\n---\<close>, whitespace and a newline follow; the closing greedy \<open>\s*\n\<close> ends at
  the last newline of its whitespace run.
\<close>

abbreviation NL :: char where
  "NL \<equiv> CHR 0x0A"

text \<open>
  The suffixes that follow each newline of the leading whitespace run of a string, in
  the order of the text.
\<close>

fun ws_newline_cuts :: "string \<Rightarrow> string list" where
  "ws_newline_cuts [] = []"
| "ws_newline_cuts (c # cs) =
     (if py_isspace c then (if c = NL then [cs] else []) @ ws_newline_cuts cs else [])"

text \<open>\<open>\n---\s*\n\<close> matched at the start of a string: what is left after it.\<close>

definition match_close :: "string \<Rightarrow> string option" where
  "match_close s =
     (if startswith s (NL # ''---'')
      then (case rev (ws_newline_cuts (drop 4 s)) of [] \<Rightarrow> None | r # _ \<Rightarrow> Some r)
      else None)"

text \<open>\<open>(.*?)\n---\s*\n\<close>: the shortest group after which the closing matches.\<close>

fun match_lazy :: "string \<Rightarrow> (string \<times> string) option" where
  "match_lazy [] = None"
| "match_lazy (c # cs) =
     (case match_close (c # cs) of
        Some r \<Rightarrow> Some ([], r)
      | None \<Rightarrow> (case match_lazy cs of None \<Rightarrow> None | Some (g, r) \<Rightarrow> Some (c # g, r)))"

fun first_some :: "('a \<Rightarrow> 'b option) \<Rightarrow> 'a list \<Rightarrow> 'b option" where
  "first_some f [] = None"
| "first_some f (x # xs) = (case f x of Some y \<Rightarrow> Some y | None \<Rightarrow> first_some f xs)"

text \<open>The whole pattern: \<open>(match.group(1), content[match.end():])\<close> when it matches.\<close>

definition frontmatter_match :: "string \<Rightarrow> (string \<times> string) option" where
  "frontmatter_match content =
     (if startswith content ''---''
      then first_some match_lazy (rev (ws_newline_cuts (drop 3 content)))
      else None)"

datatype py_error = ValueError

text \<open>
  \<open>value.isdigit()\<close> holds of a non-empty string of digits, which below code point 256
  are the ASCII digits and the superscripts 178, 179 and 185. \<open>int(value)\<close> and
  \<open>float(value)\<close> raise ValueError unless the text is made of ASCII digits, with at
  most one point for a float. (The interpreter's limit on the number of digits of an
  integer literal is not modelled.)
\<close>

definition isdigit_char :: "char \<Rightarrow> bool" where
  "isdigit_char c = (is_digit c \<or> (of_char c :: nat) \<in> {178, 179, 185})"

definition isdigit :: "string \<Rightarrow> bool" where
  "isdigit s = (s \<noteq> [] \<and> list_all isdigit_char s)"

definition digits_val :: "string \<Rightarrow> nat" where
  "digits_val s = foldl (\<lambda>acc c. 10 * acc + digit_val c) 0 s"

definition py_int :: "string \<Rightarrow> py_error + int" where
  "py_int s = (if s \<noteq> [] \<and> list_all is_digit s then Inr (int (digits_val s)) else Inl ValueError)"

definition py_float :: "string \<Rightarrow> py_error + fm_value" where
  "py_float s =
     (if list_all (\<lambda>c. is_digit c \<or> c = CHR ''.'') s \<and> (\<exists>c\<in>set s. is_digit c) \<and>
         length (filter (\<lambda>c. c = CHR ''.'') s) \<le> 1
      then Inr (VFloat s) else Inl ValueError)"

text \<open>\<open>frontmatter[key] = value\<close> on a dict in insertion order.\<close>

fun dict_set :: "'k \<Rightarrow> 'v \<Rightarrow> ('k \<times> 'v) list \<Rightarrow> ('k \<times> 'v) list" where
  "dict_set k v [] = [(k, v)]"
| "dict_set k v ((k', v') # d) = (if k = k' then (k, v) # d else (k', v') # dict_set k v d)"

text \<open>The quote removal and the type conversion of \<open>parse_simple_frontmatter\<close>.\<close>

definition unquote :: "string \<Rightarrow> string" where
  "unquote v =
     (if startswith v ''\"'' \<and> endswith v ''\"'' then butlast (tl v)
      else if startswith v [CHR 0x27] \<and> endswith v [CHR 0x27] then butlast (tl v)
      else v)"

definition convert_value :: "string \<Rightarrow> py_error + fm_value" where
  "convert_value v =
     (if lower v = ''true'' \<or> lower v = ''false'' then Inr (VBool (lower v = ''true''))
      else if isdigit v then (case py_int v of Inl e \<Rightarrow> Inl e | Inr i \<Rightarrow> Inr (VInt i))
      else if isdigit (filter (\<lambda>c. c \<noteq> CHR ''.'') v) then py_float v
      else Inr (VStr v))"

text \<open>\<open>key, value = line.split(':', 1)\<close>\<close>

definition split_colon :: "string \<Rightarrow> string \<times> string" where
  "split_colon line = (takeWhile (\<lambda>c. c \<noteq> CHR '':'') line, tl (dropWhile (\<lambda>c. c \<noteq> CHR '':'') line))"

definition parse_line :: "string \<Rightarrow> fm_dict \<Rightarrow> py_error + fm_dict" where
  "parse_line raw frontmatter =
     (let line = strip raw
      in if CHR '':'' \<in> set line \<and> \<not> startswith line ''#''
         then (let (k, v) = split_colon line
               in case convert_value (unquote (strip v)) of
                    Inl e \<Rightarrow> Inl e
                  | Inr x \<Rightarrow> Inr (dict_set (strip k) x frontmatter))
         else Inr frontmatter)"

fun parse_lines :: "string list \<Rightarrow> fm_dict \<Rightarrow> py_error + fm_dict" where
  "parse_lines [] frontmatter = Inr frontmatter"
| "parse_lines (l # ls) frontmatter =
     (case parse_line l frontmatter of Inl e \<Rightarrow> Inl e | Inr d \<Rightarrow> parse_lines ls d)"

definition parse_simple_frontmatter :: "string \<Rightarrow> py_error + fm_dict" where
  "parse_simple_frontmatter frontmatter_text = parse_lines (split_on NL frontmatter_text) []"

text \<open>
  The YAML facility is not part of the repository: \<open>yaml.safe_load\<close> is a parameter that
  raises, returns something that is not a dict, or returns a dict. \<open>None\<close> stands for
  \<open>YAML_AVAILABLE = False\<close>.
\<close>

datatype yaml_result = YamlError | YamlNotDict | YamlDict fm_dict

type_synonym yaml_facility = "(string \<Rightarrow> yaml_result) option"

text \<open>The body of the \<open>try\<close> of \<open>extract_frontmatter\<close>: the parsed mapping, or the exception.\<close>

definition parse_block :: "yaml_facility \<Rightarrow> string \<Rightarrow> py_error + fm_dict" where
  "parse_block yaml frontmatter_text =
     (case yaml of
        Some safe_load \<Rightarrow>
          (case safe_load frontmatter_text of
             YamlError \<Rightarrow> Inl ValueError
           | YamlNotDict \<Rightarrow> Inr []
           | YamlDict d \<Rightarrow> Inr d)
      | None \<Rightarrow> parse_simple_frontmatter frontmatter_text)"

definition extract_frontmatter :: "yaml_facility \<Rightarrow> string \<Rightarrow> fm_dict \<times> string" where
  "extract_frontmatter yaml content =
     (case frontmatter_match content of
        None \<Rightarrow> ([], content)
      | Some (frontmatter_text, rest) \<Rightarrow>
          (case parse_block yaml frontmatter_text of
             Inl e \<Rightarrow> ([], content)
           | Inr frontmatter \<Rightarrow> (frontmatter, rest)))"

section \<open>Parsing times (datetime.strptime)\<close>

text \<open>
  \<open>datetime.strptime\<close> compiles a format into a regular expression that is matched
  at the start of the text, ignoring case, and raises ValueError when it does not match
  or when text is left over. The directives stand for the alternatives
  \<open>%Y = \d\d\d\d\<close>, \<open>%m = 1[0-2]|0[1-9]|[1-9]\<close>,
  \<open>%d = 3[0-1]|[1-2]\d|0[1-9]|[1-9]| [1-9]\<close>, \<open>%H = 2[0-3]|[0-1]\d|\d\<close>,
  \<open>%M = [0-5]\d|\d\<close> and \<open>%S = 6[0-1]|[0-5]\d|\d\<close>; white space in the format stands
  for \<open>\s+\<close>. The first match in the matcher's backtracking order is taken.
\<close>

datatype fmt_item = FY | Fm | Fd | FH | FM | FS | FLit char | FSpace

text \<open>The formats the bridge uses.\<close>

definition fmt_date :: "fmt_item list" where
  \<comment> \<open>\<open>%Y-%m-%d\<close>\<close>
  "fmt_date = [FY, FLit CHR ''-'', Fm, FLit CHR ''-'', Fd]"

definition fmt_iso_T :: "fmt_item list" where
  \<comment> \<open>\<open>%Y-%m-%dT%H:%M:%S\<close>\<close>
  "fmt_iso_T = fmt_date @ [FLit CHR ''T'', FH, FLit CHR '':'', FM, FLit CHR '':'', FS]"

definition fmt_iso_space :: "fmt_item list" where
  \<comment> \<open>\<open>%Y-%m-%d %H:%M:%S\<close>\<close>
  "fmt_iso_space = fmt_date @ [FSpace, FH, FLit CHR '':'', FM, FLit CHR '':'', FS]"

definition fmt_minutes :: "fmt_item list" where
  \<comment> \<open>\<open>%Y-%m-%d %H:%M\<close>\<close>
  "fmt_minutes = fmt_date @ [FSpace, FH, FLit CHR '':'', FM]"

text \<open>
  One alternative of a directive: a first character in a range, then optionally a
  second one in a range; the value read and the rest of the text.
\<close>

definition in_range :: "char \<Rightarrow> nat \<Rightarrow> nat \<Rightarrow> bool" where
  "in_range c lo hi = (is_digit c \<and> lo \<le> digit_val c \<and> digit_val c \<le> hi)"

definition alt2 :: "nat \<Rightarrow> nat \<Rightarrow> nat \<Rightarrow> nat \<Rightarrow> string \<Rightarrow> (nat \<times> string) list" where
  "alt2 lo1 hi1 lo2 hi2 s =
     (case s of
        a # b # rest \<Rightarrow>
          if in_range a lo1 hi1 \<and> in_range b lo2 hi2
          then [(10 * digit_val a + digit_val b, rest)] else []
      | _ \<Rightarrow> [])"

definition alt1 :: "nat \<Rightarrow> nat \<Rightarrow> string \<Rightarrow> (nat \<times> string) list" where
  "alt1 lo hi s =
     (case s of
        a # rest \<Rightarrow> if in_range a lo hi then [(digit_val a, rest)] else []
      | _ \<Rightarrow> [])"

definition alt_space_digit :: "string \<Rightarrow> (nat \<times> string) list" where
  "alt_space_digit s =
     (case s of
        a # b # rest \<Rightarrow> if a = CHR '' '' \<and> in_range b 1 9 then [(digit_val b, rest)] else []
      | _ \<Rightarrow> [])"

definition alt_year :: "string \<Rightarrow> (nat \<times> string) list" where
  "alt_year s =
     (if 4 \<le> length s \<and> list_all is_digit (take 4 s) then [(digits_val (take 4 s), drop 4 s)]
      else [])"

text \<open>The fields a match collects; \<open>strptime\<close> starts from 1900-01-01 00:00:00.\<close>

record strp_fields =
  f_year :: nat
  f_month :: nat
  f_day :: nat
  f_hour :: nat
  f_minute :: nat
  f_second :: nat

definition strp_defaults :: strp_fields where
  "strp_defaults = \<lparr>f_year = 1900, f_month = 1, f_day = 1, f_hour = 0, f_minute = 0, f_second = 0\<rparr>"

text \<open>The suffixes left by \<open>\s+\<close>, the longest run of white space first.\<close>

fun ws_suffixes :: "string \<Rightarrow> string list" where
  "ws_suffixes [] = []"
| "ws_suffixes (c # cs) = (if py_isspace c then ws_suffixes cs @ [cs] else [])"

text \<open>The ways one format item matches at the start of a text, in the matcher's order.\<close>

fun strp_step :: "fmt_item \<Rightarrow> strp_fields \<Rightarrow> string \<Rightarrow> (strp_fields \<times> string) list" where
  "strp_step FY f s = map (\<lambda>(v, r). (f\<lparr>f_year := v\<rparr>, r)) (alt_year s)"
| "strp_step Fm f s =
     map (\<lambda>(v, r). (f\<lparr>f_month := v\<rparr>, r)) (alt2 1 1 0 2 s @ alt2 0 0 1 9 s @ alt1 1 9 s)"
| "strp_step Fd f s =
     map (\<lambda>(v, r). (f\<lparr>f_day := v\<rparr>, r))
       (alt2 3 3 0 1 s @ alt2 1 2 0 9 s @ alt2 0 0 1 9 s @ alt1 1 9 s @ alt_space_digit s)"
| "strp_step FH f s =
     map (\<lambda>(v, r). (f\<lparr>f_hour := v\<rparr>, r)) (alt2 2 2 0 3 s @ alt2 0 1 0 9 s @ alt1 0 9 s)"
| "strp_step FM f s =
     map (\<lambda>(v, r). (f\<lparr>f_minute := v\<rparr>, r)) (alt2 0 5 0 9 s @ alt1 0 9 s)"
| "strp_step FS f s =
     map (\<lambda>(v, r). (f\<lparr>f_second := v\<rparr>, r)) (alt2 6 6 0 1 s @ alt2 0 5 0 9 s @ alt1 0 9 s)"
| "strp_step (FLit c) f s =
     (case s of [] \<Rightarrow> [] | a # rest \<Rightarrow> if lower_char a = lower_char c then [(f, rest)] else [])"
| "strp_step FSpace f s = map (\<lambda>r. (f, r)) (ws_suffixes s)"

fun strp_run :: "fmt_item list \<Rightarrow> strp_fields \<Rightarrow> string \<Rightarrow> (strp_fields \<times> string) list" where
  "strp_run [] f s = [(f, s)]"
| "strp_run (it # its) f s = concat (map (\<lambda>(f', r). strp_run its f' r) (strp_step it f s))"

definition is_leap :: "nat \<Rightarrow> bool" where
  "is_leap y = (y mod 4 = 0 \<and> (y mod 100 \<noteq> 0 \<or> y mod 400 = 0))"

definition days_in_month :: "nat \<Rightarrow> nat \<Rightarrow> nat" where
  "days_in_month y m =
     (if m = 2 then (if is_leap y then 29 else 28)
      else if m \<in> {4, 6, 9, 11} then 30 else 31)"

text \<open>
  \<open>datetime.strptime(text, format)\<close>: a naive datetime, or ValueError when the text
  does not match, text is left over, or the fields are no date and time of day.
\<close>

definition strptime :: "string \<Rightarrow> fmt_item list \<Rightarrow> py_error + pydatetime" where
  "strptime text format =
     (case strp_run format strp_defaults text of
        [] \<Rightarrow> Inl ValueError
      | (f, rest) # _ \<Rightarrow>
          if rest \<noteq> [] then Inl ValueError
          else if 1 \<le> f_year f \<and> 1 \<le> f_month f \<and> f_month f \<le> 12 \<and> 1 \<le> f_day f \<and>
                  f_day f \<le> days_in_month (f_year f) (f_month f) \<and> f_hour f \<le> 23 \<and>
                  f_minute f \<le> 59 \<and> f_second f \<le> 59
          then Inr \<lparr>dt_year = f_year f, dt_month = f_month f, dt_day = f_day f,
                    dt_hour = f_hour f, dt_minute = f_minute f, dt_second = f_second f,
                    dt_microsecond = 0, dt_tzinfo = None\<rparr>
          else Inl ValueError)"

section \<open>Instants\<close>

text \<open>
  The proleptic Gregorian ordinal of a day (1 for 0001-01-01) and the microseconds of
  an instant on the UTC time line, by which aware datetimes are compared and subtracted.
\<close>

definition days_before_year :: "nat \<Rightarrow> nat" where
  "days_before_year y = (y - 1) * 365 + (y - 1) div 4 - (y - 1) div 100 + (y - 1) div 400"

definition days_before_month :: "nat \<Rightarrow> nat \<Rightarrow> nat" where
  "days_before_month y m = sum_list (map (days_in_month y) [1..<m])"

definition to_ordinal :: "nat \<Rightarrow> nat \<Rightarrow> nat \<Rightarrow> nat" where
  "to_ordinal y m d = days_before_year y + days_before_month y m + d"

definition utc_microseconds :: "pydatetime \<Rightarrow> int" where
  "utc_microseconds d =
     (int (to_ordinal (dt_year d) (dt_month d) (dt_day d)) * 86400 +
      int (dt_hour d) * 3600 + int (dt_minute d) * 60 + int (dt_second d) -
      (case dt_tzinfo d of None \<Rightarrow> 0 | Some off \<Rightarrow> off * 60)) * 1000000 +
     int (dt_microsecond d)"

section \<open>Reference time (graphiti\_bridge/sync.py)\<close>

text \<open>
  The clock: what \<open>datetime.now()\<close> (local wall clock, naive) and
  \<open>datetime.now(timezone.utc)\<close> (aware) return.
\<close>

record clock =
  now_local :: pydatetime
  now_utc :: pydatetime

text \<open>
  The formats are tried in order, a ValueError moves on to the next one.
\<close>

fun parse_time_string :: "string \<Rightarrow> fmt_item list list \<Rightarrow> pydatetime option" where
  "parse_time_string text [] = None"
| "parse_time_string text (fmt # fmts) =
     (case strptime text fmt of Inr d \<Rightarrow> Some d | Inl e \<Rightarrow> parse_time_string text fmts)"

text \<open>
  What one metadata value gives: a string is parsed; a datetime (it has \<open>tzinfo\<close>) is
  taken as it is; a date becomes midnight of that day; anything else gives nothing.
\<close>

fun time_of_value :: "fm_value \<Rightarrow> pydatetime option" where
  "time_of_value (VStr text) = parse_time_string text [fmt_date, fmt_iso_T, fmt_iso_space]"
| "time_of_value (VDateTime d) = Some d"
| "time_of_value (VDate d) = Some (combine_midnight d)"
| "time_of_value v = None"

definition time_fields :: "string list" where
  "time_fields = [''date'', ''created'', ''created_at'', ''timestamp'', ''modified'']"

text \<open>What one time field gives: its value must be present, true, and give a time.\<close>

definition field_time :: "fm_dict \<Rightarrow> string \<Rightarrow> pydatetime option" where
  "field_time metadata time_field =
     (case dict_get metadata time_field of
        None \<Rightarrow> None
      | Some v \<Rightarrow> if truthy v then time_of_value v else None)"

text \<open>The loop over the time fields stops at the first field that gives a time.\<close>

fun scan_time_fields :: "fm_dict \<Rightarrow> string list \<Rightarrow> pydatetime option" where
  "scan_time_fields metadata [] = None"
| "scan_time_fields metadata (time_field # later) =
     (case field_time metadata time_field of
        Some d \<Rightarrow> Some d
      | None \<Rightarrow> scan_time_fields metadata later)"

definition extract_reference_time :: "clock \<Rightarrow> fm_dict \<Rightarrow> string \<Rightarrow> pydatetime" where
  "extract_reference_time clk metadata db_type =
     (case scan_time_fields metadata time_fields of
        None \<Rightarrow> if db_type = ''falkordb'' then now_utc clk else now_local clk
      | Some reference_time \<Rightarrow>
          if db_type = ''falkordb'' \<and> dt_tzinfo reference_time = None
          then replace_tzinfo reference_time timezone_utc
          else reference_time)"

section \<open>Configuration (graphiti\_bridge/config.py)\<close>

text \<open>
  One entry of \<open>folderNamespaceMappings\<close>; \<open>mapping.get('folderPath', '')\<close> and
  \<open>mapping.get('groupId', '')\<close> read an absent key as the empty string.
\<close>

record folder_mapping =
  folderPath :: string
  groupId :: string
  customExtractionInstructions :: "string option"
  sagaGrouping :: "string option"
  sagaPropertyKey :: "string option"

text \<open>
  The fields of \<open>BridgeConfig\<close> the ingestion pipeline reads. An absent or \<open>None\<close>
  list of mappings is the empty list (both are false in \<open>if config.folder_namespace_mappings\<close>).
\<close>

record bridge_config =
  vault_path :: "string option"
  database_type :: string
  use_custom_ontology :: bool
  default_namespace :: string
  enable_folder_namespacing :: bool
  enable_property_namespacing :: bool
  namespace_strategy :: string
  folder_namespace_mappings :: "folder_mapping list"
  source_description :: "string option"
  group_id :: "string option"
  global_extraction_instructions :: "string option"
  previous_episode_uuids :: "string list"

section \<open>Namespace resolution (graphiti\_bridge/sync.py)\<close>

text \<open>
  \<open>vault_posix = Path(getattr(config, 'vault_path', '') or '').as_posix().rstrip('/')\<close>
\<close>

definition vault_posix_of :: "bridge_config \<Rightarrow> string" where
  "vault_posix_of config =
     rstrip_char CHR ''/'' (as_posix (case vault_path config of None \<Rightarrow> [] | Some v \<Rightarrow> v))"

text \<open>
  The note's path relative to the vault root: the vault prefix is stripped when the
  lower-cased note path starts with the lower-cased \<open>vault_posix + '/'\<close>.
\<close>

definition vault_relative :: "bridge_config \<Rightarrow> string \<Rightarrow> string" where
  "vault_relative config note_path =
     (let note_posix = as_posix note_path;
          vault_posix = vault_posix_of config
      in if vault_posix \<noteq> [] \<and> startswith (lower note_posix) (lower (vault_posix @ ''/''))
         then drop (length vault_posix + 1) note_posix
         else note_posix)"

text \<open>
  \<open>_resolve_custom_folder_mapping\<close>. The note's folder is its normalised path without
  the last component; the mappings are tried longest \<open>folderPath\<close> first; one with an
  empty \<open>folderPath\<close> or \<open>groupId\<close> is skipped; a mapping matches when the folder
  equals its normalised path or starts with that path followed by \<open>/\<close>.
\<close>

definition note_folder_path :: "string \<Rightarrow> string" where
  "note_folder_path note_path =
     (let path_parts = split_on CHR ''/'' (as_posix note_path)
      in if length path_parts > 1 then join ''/'' (butlast path_parts) else [])"

definition mapping_matches :: "string \<Rightarrow> folder_mapping \<Rightarrow> bool" where
  "mapping_matches folder m =
     (let folder_path_normalized = as_posix (folderPath m)
      in folder = folder_path_normalized \<or> startswith folder (folder_path_normalized @ ''/''))"

fun first_folder_match :: "string \<Rightarrow> folder_mapping list \<Rightarrow> string option" where
  "first_folder_match folder [] = None"
| "first_folder_match folder (m # ms) =
     (if folderPath m = [] \<or> groupId m = [] then first_folder_match folder ms
      else if mapping_matches folder m then Some (groupId m)
      else first_folder_match folder ms)"

definition resolve_custom_folder_mapping :: "string \<Rightarrow> folder_mapping list \<Rightarrow> string option" where
  "resolve_custom_folder_mapping note_path folder_mappings =
     (if folder_mappings = [] then None
      else first_folder_match (note_folder_path note_path)
             (sort_reverse (\<lambda>m. length (folderPath m)) folder_mappings))"

text \<open>
  \<open>resolve_namespace\<close>: the frontmatter's \<open>g_group_id\<close> when property namespacing is
  on, then the folder mapping when folder namespacing is on, then the default
  namespace, which every namespace strategy returns.
\<close>

definition resolve_namespace :: "string \<Rightarrow> fm_dict \<Rightarrow> bridge_config \<Rightarrow> string" where
  "resolve_namespace note_path metadata config =
     (let by_property =
            (if enable_property_namespacing config \<and> metadata \<noteq> []
             then (case dict_get metadata ''g_group_id'' of
                     None \<Rightarrow> None
                   | Some v \<Rightarrow> (let namespace = strip (py_str v)
                               in if namespace \<noteq> [] then Some namespace else None))
             else None);
          by_folder =
            (if enable_folder_namespacing config \<and> folder_namespace_mappings config \<noteq> []
             then (case resolve_custom_folder_mapping (vault_relative config note_path)
                          (folder_namespace_mappings config) of
                     None \<Rightarrow> None
                   | Some custom_group_id \<Rightarrow>
                       if custom_group_id \<noteq> [] then Some custom_group_id else None)
             else None)
      in case by_property of
           Some namespace \<Rightarrow> namespace
         | None \<Rightarrow>
             (case by_folder of
                Some custom_group_id \<Rightarrow> custom_group_id
              | None \<Rightarrow>
                  if namespace_strategy config = ''vault'' then default_namespace config
                  else if namespace_strategy config = ''custom'' then default_namespace config
                  else default_namespace config))"

text \<open>
  \<open>resolve_saga_name\<close>. \<open>replace(' ', '-')\<close> maps every space to a hyphen and
  \<open>[:n]\<close> keeps the first \<open>n\<close> characters.
\<close>

definition slug :: "nat \<Rightarrow> fm_value \<Rightarrow> string" where
  "slug n v = take n (map (\<lambda>c. if c = CHR '' '' then CHR ''-'' else c) (lower (py_str v)))"

definition resolve_saga_name ::
  "string \<Rightarrow> string option \<Rightarrow> string \<Rightarrow> fm_value option \<Rightarrow> fm_dict \<Rightarrow> string option" where
  "resolve_saga_name saga_grouping saga_property_key gid note_type frontmatter =
     (if saga_grouping = ''none'' then None
      else if saga_grouping = ''singleSaga'' then Some (''all-'' @ gid)
      else if saga_grouping = ''customProperty'' \<and> saga_property_key \<noteq> None \<and>
              saga_property_key \<noteq> Some []
      then (case dict_get frontmatter (the saga_property_key) of
              None \<Rightarrow> None
            | Some prop_value \<Rightarrow>
                if truthy prop_value then Some (slug 80 prop_value @ ''-'' @ gid) else None)
      else (case note_type of
              None \<Rightarrow> None
            | Some t \<Rightarrow> if truthy t then Some (slug 40 t @ ''-'' @ gid) else None))"

section \<open>Episode submission (graphiti\_bridge/sync.py)\<close>

text \<open>
  The keyword arguments of \<open>graphiti.add_episode\<close>; an absent keyword is \<open>None\<close>. The
  source is always \<open>EpisodeType.text\<close>. The custom schema is kept as the names of its
  entity and edge types and the map from pairs of entity names to edge names.
\<close>

record schema =
  entity_types :: "string list"
  edge_types :: "string list"
  edge_type_map :: "((string \<times> string) \<times> string list) list"

record episode_kwargs =
  kw_name :: string
  kw_episode_body :: string
  kw_source_description :: "string option"
  kw_reference_time :: pydatetime
  kw_schema :: "schema option"
  kw_group_id :: "string option"
  kw_previous_episode_uuids :: "string list option"
  kw_custom_extraction_instructions :: "string option"
  kw_saga :: "string option"
  kw_saga_previous_episode_uuid :: "string option"

text \<open>
  An exception with the text \<open>str(e)\<close>; \<open>InfrastructureError\<close> is the class
  \<open>process_note\<close> catches first.
\<close>

datatype exn = InfrastructureError string | OtherError string

fun exn_text :: "exn \<Rightarrow> string" where
  "exn_text (InfrastructureError m) = m"
| "exn_text (OtherError m) = m"

text \<open>
  What the graph client returns: the counts and the episode UUID that
  \<open>process_note\<close> reads off the result object. A result that is false in
  \<open>if graphiti_result\<close> is \<open>None\<close>.
\<close>

record graphiti_result =
  gr_entities :: nat
  gr_relationships :: nat
  gr_episode_uuid :: "string option"

datatype add_outcome = Raises exn | Returns "graphiti_result option"

text \<open>
  The graph client is outside the repository: \<open>add_episode\<close> is a parameter that
  answers the \<open>n\<close>-th call (counting from 0) with the given keyword arguments. The
  world records the calls made and the warnings logged whatever the debug flag is.
\<close>

type_synonym graph_client = "nat \<Rightarrow> episode_kwargs \<Rightarrow> add_outcome"

record world =
  submitted :: "episode_kwargs list"
  warnings :: "string list"

definition add_episode :: "graph_client \<Rightarrow> episode_kwargs \<Rightarrow> world \<Rightarrow> add_outcome \<times> world" where
  "add_episode graphiti kw w =
     (graphiti (length (submitted w)) kw, w\<lparr>submitted := submitted w @ [kw]\<rparr>)"

text \<open>The timezone-aware \<open>formatted_reference_time\<close> both episode builders compute.\<close>

definition formatted_reference_time :: "pydatetime \<Rightarrow> pydatetime" where
  "formatted_reference_time reference_time =
     (if dt_tzinfo reference_time = None then replace_tzinfo reference_time timezone_utc
      else reference_time)"

text \<open>
  The source description: \<open>str\<close> of the frontmatter's \<open>type\<close> when it is true, else
  the configured one.
\<close>

definition source_description_of :: "fm_dict option \<Rightarrow> bridge_config \<Rightarrow> string option" where
  "source_description_of metadata config =
     (case (case metadata of None \<Rightarrow> None | Some md \<Rightarrow> dict_get md ''type'') of
        Some t \<Rightarrow> if truthy t then Some (py_str t) else source_description config
      | None \<Rightarrow> source_description config)"

text \<open>
  The episode body: the frontmatter as a \<open>---\<close> block above the clean text when
  there is metadata, else the clean text.
\<close>

fun frontmatter_line :: "string \<times> fm_value \<Rightarrow> string" where
  "frontmatter_line (k, VOther s j b) = k @ '': '' @ j"
| "frontmatter_line (k, v) = k @ '': '' @ py_str v"

definition merged_body :: "fm_dict option \<Rightarrow> string \<Rightarrow> string" where
  "merged_body metadata clean_text =
     (case metadata of
        None \<Rightarrow> clean_text
      | Some md \<Rightarrow>
          if md = [] then clean_text
          else join [NL] ([''---''] @ map frontmatter_line md @ [''---'']) @ [NL] @ clean_text)"

text \<open>The keyword arguments common to both builders.\<close>

definition episode_kwargs_of ::
  "string \<Rightarrow> string \<Rightarrow> pydatetime \<Rightarrow> string \<Rightarrow> fm_dict option \<Rightarrow> string \<Rightarrow> bridge_config \<Rightarrow>
   string option \<Rightarrow> string option \<Rightarrow> string option \<Rightarrow> schema option \<Rightarrow> episode_kwargs" where
  "episode_kwargs_of note_name clean_text reference_time gid metadata db_type config
     instructions saga saga_previous_uuid sch =
     \<lparr>kw_name = note_name,
      kw_episode_body = merged_body metadata clean_text,
      kw_source_description = source_description_of metadata config,
      kw_reference_time = formatted_reference_time reference_time,
      kw_schema = sch,
      kw_group_id = (if lower db_type = ''neo4j'' then Some gid else None),
      kw_previous_episode_uuids =
        (if previous_episode_uuids config \<noteq> [] then Some (previous_episode_uuids config) else None),
      kw_custom_extraction_instructions =
        (case instructions of None \<Rightarrow> None | Some i \<Rightarrow> if i \<noteq> [] then Some i else None),
      kw_saga = (case saga of None \<Rightarrow> None | Some n \<Rightarrow> if n \<noteq> [] then Some n else None),
      kw_saga_previous_episode_uuid =
        (case saga_previous_uuid of None \<Rightarrow> None | Some u \<Rightarrow> if u \<noteq> [] then Some u else None)\<rparr>"

text \<open>
  \<open>create_generic_text_episode\<close>: one call of \<open>add_episode\<close>; an exception is raised
  again.
\<close>

definition create_generic_text_episode ::
  "graph_client \<Rightarrow> string \<Rightarrow> string \<Rightarrow> pydatetime \<Rightarrow> string \<Rightarrow> string \<Rightarrow> bridge_config \<Rightarrow>
   fm_dict option \<Rightarrow> string option \<Rightarrow> string option \<Rightarrow> string option \<Rightarrow> world \<Rightarrow>
   (exn + graphiti_result option) \<times> world" where
  "create_generic_text_episode graphiti note_name clean_text reference_time gid db_type config
     metadata instructions saga saga_previous_uuid w =
     (case add_episode graphiti
             (episode_kwargs_of note_name clean_text reference_time gid metadata db_type config
                instructions saga saga_previous_uuid None) w of
        (Raises e, w') \<Rightarrow> (Inl e, w')
      | (Returns r, w') \<Rightarrow> (Inr r, w'))"

text \<open>
  \<open>create_custom_entity_episode\<close>. Loading the schema may raise. With no entity
  types the generic builder is called inside the \<open>try\<close>; with entity types the
  episode carries the schema. Any exception inside the \<open>try\<close> logs a warning and
  calls the generic builder. Both calls of the generic builder leave out the metadata
  (its parameter keeps the default \<open>None\<close>).
\<close>

definition fallback_warning :: "exn \<Rightarrow> string" where
  "fallback_warning e =
     ''Custom entity episode creation failed: '' @ exn_text e @
     '', falling back to generic episode''"

definition create_custom_entity_episode ::
  "graph_client \<Rightarrow> (exn + schema) \<Rightarrow> string \<Rightarrow> string \<Rightarrow> pydatetime \<Rightarrow> string \<Rightarrow> fm_dict \<Rightarrow>
   string \<Rightarrow> bridge_config \<Rightarrow> string option \<Rightarrow> string option \<Rightarrow> string option \<Rightarrow> world \<Rightarrow>
   (exn + graphiti_result option) \<times> world" where
  "create_custom_entity_episode graphiti loaded note_name clean_text reference_time gid metadata
     db_type config instructions saga saga_previous_uuid w =
     (let generic = create_generic_text_episode graphiti note_name clean_text reference_time gid
                      db_type config None instructions saga saga_previous_uuid;
          attempt =
            (case loaded of
               Inl e \<Rightarrow> (Inl e, w)
             | Inr sch \<Rightarrow>
                 if entity_types sch = [] then generic w
                 else (case add_episode graphiti
                              (episode_kwargs_of note_name clean_text reference_time gid
                                 (Some metadata) db_type config instructions saga
                                 saga_previous_uuid (Some sch)) w of
                         (Raises e, w') \<Rightarrow> (Inl e, w')
                       | (Returns r, w') \<Rightarrow> (Inr r, w')))
      in case attempt of
           (Inr r, w') \<Rightarrow> (Inr r, w')
         | (Inl e, w') \<Rightarrow> generic (w'\<lparr>warnings := warnings w' @ [fallback_warning e]\<rparr>))"

section \<open>Saga chain lookup (graphiti\_bridge/sync.py)\<close>

text \<open>
  An entry of the persisted sync records. Every field is a JSON string that may be
  absent (\<open>None\<close>), as the SyncRecord data model has it; \<open>entry.get(k)\<close> reads it.
  Python compares strings by code point, which is the lexicographic order on
  character lists used here.
\<close>

record sync_entry =
  entry_saga_name :: "string option"
  entry_episode_uuid :: "string option"
  entry_last_sync :: "string option"

record sync_record =
  syncs :: "sync_entry list option"

text \<open>\<open>record.get('syncs', [])\<close>\<close>

definition record_syncs :: "sync_record \<Rightarrow> sync_entry list" where
  "record_syncs r = (case syncs r of None \<Rightarrow> [] | Some es \<Rightarrow> es)"

text \<open>Truth value of \<open>entry.get('episode_uuid')\<close>: present and not the empty string.\<close>

definition has_episode_uuid :: "sync_entry \<Rightarrow> bool" where
  "has_episode_uuid e = (case entry_episode_uuid e of None \<Rightarrow> False | Some u \<Rightarrow> u \<noteq> [])"

text \<open>The list comprehension of \<open>lookup_saga_previous_uuid\<close>.\<close>

definition saga_matching :: "string \<Rightarrow> sync_record list \<Rightarrow> sync_entry list" where
  "saga_matching saga_name sync_records =
     filter (\<lambda>entry. entry_saga_name entry = Some saga_name \<and> has_episode_uuid entry)
       (concat (map record_syncs sync_records))"

text \<open>\<open>e.get('last\_sync', '')\<close>\<close>

definition last_sync_key :: "sync_entry \<Rightarrow> string" where
  "last_sync_key e = (case entry_last_sync e of None \<Rightarrow> [] | Some s \<Rightarrow> s)"

definition lookup_saga_previous_uuid :: "string \<Rightarrow> sync_record list \<Rightarrow> string option" where
  "lookup_saga_previous_uuid saga_name sync_records =
     (case sort_reverse last_sync_key (saga_matching saga_name sync_records) of
        [] \<Rightarrow> None
      | e # _ \<Rightarrow> entry_episode_uuid e)"

text \<open>
  What \<open>_load_sync_records\<close> finds at \<open><vault>/.obsidian/plugins/megamem-mcp/sync.json\<close>:
  no file, a file that cannot be opened or is not JSON, a JSON document that is not an
  object (\<open>data.get\<close> raises AttributeError), or an object with an optional
  \<open>sync_records\<close> key. Every exception is caught and the empty list returned.
\<close>

datatype sync_file =
    FileMissing
  | FileUnparseable
  | FileNotAnObject
  | FileObject "sync_record list option"

definition load_sync_records :: "string option \<Rightarrow> sync_file \<Rightarrow> sync_record list" where
  "load_sync_records vault file =
     (case vault of
        None \<Rightarrow> []
      | Some p \<Rightarrow>
          if p = [] then []
          else (case file of
                  FileMissing \<Rightarrow> []
                | FileUnparseable \<Rightarrow> []
                | FileNotAnObject \<Rightarrow> []
                | FileObject None \<Rightarrow> []
                | FileObject (Some rs) \<Rightarrow> rs))"

section \<open>Rate-limit classification (graphiti\_bridge/sync.py)\<close>

text \<open>\<open>re.search\<close>: the leftmost position at which a pattern matches.\<close>

fun regex_search :: "(string \<Rightarrow> 'a option) \<Rightarrow> string \<Rightarrow> 'a option" where
  "regex_search m [] = m []"
| "regex_search m (c # cs) = (case m (c # cs) of Some r \<Rightarrow> Some r | None \<Rightarrow> regex_search m cs)"

text \<open>A text of a fixed shape: \<open>d\<close> in the shape stands for a digit (\<open>\d\<close>).\<close>

fun shape_ok :: "string \<Rightarrow> string \<Rightarrow> bool" where
  "shape_ok [] [] = True"
| "shape_ok (p # ps) (c # cs) = ((if p = CHR ''d'' then is_digit c else c = p) \<and> shape_ok ps cs)"
| "shape_ok ps cs = False"

text \<open>
  \<open>You will regain access on (\d{4}-\d{2}-\d{2}) at (\d{2}:\d{2}) UTC\<close> matched at the
  start of a string: the two groups.
\<close>

definition match_regain_here :: "string \<Rightarrow> (string \<times> string) option" where
  "match_regain_here s =
     (let shape = ''You will regain access on dddd-dd-dd at dd:dd UTC''
      in if shape_ok shape (take (length shape) s)
         then Some (take 10 (drop 26 s), take 5 (drop 40 s)) else None)"

text \<open>
  \<open>retry[- ]?after[:\s]+(\d+)\<close> under \<open>re.IGNORECASE\<close>, matched at the start of a
  string: the number of the group. The optional separator is tried first; the greedy
  runs of separators and of digits are the longest ones.
\<close>

definition match_after_here :: "string \<Rightarrow> nat option" where
  "match_after_here s =
     (if lower (take 5 s) = ''after''
      then (let r = drop 5 s;
                seps = takeWhile (\<lambda>c. c = CHR '':'' \<or> py_isspace c) r;
                ds = takeWhile is_digit (dropWhile (\<lambda>c. c = CHR '':'' \<or> py_isspace c) r)
            in if seps \<noteq> [] \<and> ds \<noteq> [] then Some (digits_val ds) else None)
      else None)"

definition match_retry_here :: "string \<Rightarrow> nat option" where
  "match_retry_here s =
     (if lower (take 5 s) = ''retry''
      then (let r = drop 5 s
            in first_some match_after_here
                 ((case r of
                     [] \<Rightarrow> []
                   | c # cs \<Rightarrow> if c = CHR ''-'' \<or> c = CHR '' '' then [cs] else []) @ [r]))
      else None)"

text \<open>The test that makes an exception a rate limit.\<close>

definition is_rate_limit_text :: "string \<Rightarrow> bool" where
  "is_rate_limit_text original_error =
     (let error_message = lower original_error
      in contains error_message ''http/1.1 400 bad request'' \<or>
         contains error_message ''rate limit'' \<or>
         contains error_message ''too many requests'' \<or>
         contains error_message ''usage limits'')"

text \<open>
  \<open>reset_time\<close> of the result: the ISO 8601 text when the reset lies ahead, the
  datetime object itself when it does not.
\<close>

datatype reset_value = ResetIso string | ResetObject pydatetime

text \<open>
  \<open>retry_after\<close> and \<open>reset_time\<close>. \<open>now\<close> is \<open>datetime.now(timezone.utc)\<close>.
  \<open>int(delta.total_seconds())\<close> of a positive difference is its whole seconds (the
  rounding of the floating-point quotient is not modelled). The retry-after marker is
  looked for when \<open>retry_after\<close> is 60.
\<close>

definition reset_of_text :: "pydatetime \<Rightarrow> string \<Rightarrow> int \<times> reset_value option" where
  "reset_of_text now original_error =
     (case regex_search match_regain_here original_error of
        None \<Rightarrow> (60, None)
      | Some (date_str, time_str) \<Rightarrow>
          (case strptime (date_str @ '' '' @ time_str) fmt_minutes of
             Inl e \<Rightarrow> (60, None)
           | Inr d \<Rightarrow>
               (let reset_time = replace_tzinfo d timezone_utc
                in if utc_microseconds reset_time > utc_microseconds now
                   then ((utc_microseconds reset_time - utc_microseconds now) div 1000000,
                         Some (ResetIso (isoformat reset_time)))
                   else (60, Some (ResetObject reset_time)))))"

definition rate_limit_fields :: "pydatetime \<Rightarrow> string \<Rightarrow> int \<times> reset_value option" where
  "rate_limit_fields now original_error =
     (let (retry_after, reset_time) = reset_of_text now original_error
      in if retry_after = 60
         then (case regex_search match_retry_here original_error of
                 Some n \<Rightarrow> (int n, reset_time)
               | None \<Rightarrow> (retry_after, reset_time))
         else (retry_after, reset_time))"

section \<open>The single-note pipeline (graphiti\_bridge/sync.py)\<close>

text \<open>
  The result dictionary of \<open>process_note\<close>; an absent key is \<open>None\<close>. The timing
  keys (\<open>start_time\<close>, \<open>end_time\<close>, \<open>processing_duration_seconds\<close>) are left out.
\<close>

record metrics =
  entities_count :: nat
  relationships_count :: nat
  content_length :: nat
  metadata_fields :: nat

record result_dict =
  res_note_path :: string
  res_note_name :: string
  res_status :: string
  res_namespace :: "string option"
  res_episode_uuid :: "string option"
  res_saga_name :: "string option"
  res_reference_time :: "string option"
  res_metrics :: "metrics option"
  res_error :: "string option"
  res_provider_message :: "string option"
  res_retry_after :: "int option"
  res_reset_time :: "reset_value option"
  res_cancel_sync :: "bool option"

definition empty_result :: "string \<Rightarrow> string \<Rightarrow> result_dict" where
  "empty_result note_path status =
     \<lparr>res_note_path = note_path, res_note_name = path_stem note_path, res_status = status,
      res_namespace = None, res_episode_uuid = None, res_saga_name = None,
      res_reference_time = None, res_metrics = None, res_error = None,
      res_provider_message = None, res_retry_after = None, res_reset_time = None,
      res_cancel_sync = None\<rparr>"

text \<open>
  What the pipeline finds outside itself: whether \<open>validate_note_file\<close> accepts the
  resolved path, what reading the file gives, the YAML facility, the markdown
  cleaning of \<open>extract_text_content\<close> (a parameter: it is applied to the text left
  after the frontmatter), the clock read for the reference time, the clock read in the
  rate-limit branch, the sync.json file and the result of loading the custom schema.
\<close>

record note_env =
  file_valid :: bool
  file_content :: "exn + string"
  yaml :: yaml_facility
  clean_markdown :: "string \<Rightarrow> string"
  clk :: clock
  error_now :: pydatetime
  sync_json :: sync_file
  loaded_schema :: "exn + schema"

definition extract_text_content :: "note_env \<Rightarrow> string \<Rightarrow> string" where
  "extract_text_content env content =
     clean_markdown env (snd (extract_frontmatter (yaml env) content))"

text \<open>
  The folder test of the two loops of \<open>process_note\<close> (extraction instructions and
  saga): the lower-cased relative path starts with the lower-cased folder path, its
  trailing slashes removed, followed by \<open>/\<close>.
\<close>

definition folder_prefix_matches :: "string \<Rightarrow> folder_mapping \<Rightarrow> bool" where
  "folder_prefix_matches rel_path m =
     (folderPath m \<noteq> [] \<and>
      startswith (lower rel_path) (rstrip_char CHR ''/'' (lower (folderPath m)) @ ''/''))"

definition nonempty :: "string option \<Rightarrow> string option" where
  \<comment> \<open>\<open>x or None\<close>\<close>
  "nonempty x = (case x of None \<Rightarrow> None | Some t \<Rightarrow> if t = [] then None else Some t)"

definition resolve_instructions :: "string \<Rightarrow> bridge_config \<Rightarrow> string option" where
  "resolve_instructions note_path config =
     (let global_instructions = nonempty (global_extraction_instructions config)
      in case find (folder_prefix_matches (vault_relative config note_path))
                (folder_namespace_mappings config) of
           None \<Rightarrow> global_instructions
         | Some m \<Rightarrow>
             (case nonempty (customExtractionInstructions m) of
                Some ns_instructions \<Rightarrow> Some ns_instructions
              | None \<Rightarrow> global_instructions))"

definition resolve_note_saga :: "string \<Rightarrow> fm_dict \<Rightarrow> string \<Rightarrow> bridge_config \<Rightarrow> string option" where
  "resolve_note_saga note_path metadata gid config =
     (case find (folder_prefix_matches (vault_relative config note_path))
             (folder_namespace_mappings config) of
        None \<Rightarrow> None
      | Some m \<Rightarrow>
          resolve_saga_name (case sagaGrouping m of None \<Rightarrow> ''byNoteType'' | Some g \<Rightarrow> g)
            (sagaPropertyKey m) gid
            (if metadata \<noteq> [] then dict_get metadata ''type'' else None) metadata)"

text \<open>The \<open>group_id\<close> override of the configuration comes before the resolver.\<close>

definition note_group_id :: "string \<Rightarrow> fm_dict \<Rightarrow> bridge_config \<Rightarrow> string" where
  "note_group_id note_path metadata config =
     (case nonempty (group_id config) of
        Some group_id_override \<Rightarrow> group_id_override
      | None \<Rightarrow> resolve_namespace note_path metadata config)"

text \<open>The two \<open>except\<close> clauses of \<open>process_note\<close>.\<close>

definition handle_exception ::
  "note_env \<Rightarrow> string \<Rightarrow> exn \<Rightarrow> exn + result_dict option" where
  "handle_exception env note_path e =
     (case e of
        InfrastructureError m \<Rightarrow>
          Inr (Some ((empty_result note_path ''infrastructure_error'')
            \<lparr>res_error := Some ''Service provider infrastructure issue - please try again later'',
             res_provider_message := Some m,
             res_cancel_sync := Some True\<rparr>))
      | OtherError original_error \<Rightarrow>
          if is_rate_limit_text original_error
          then (let (retry_after, reset_time) = rate_limit_fields (error_now env) original_error
                in Inr (Some ((empty_result note_path ''rate_limited'')
                  \<lparr>res_error := Some ''API rate limit exceeded - sync will pause until reset'',
                   res_retry_after := Some retry_after,
                   res_reset_time := reset_time,
                   res_provider_message := Some (hd (split_on NL original_error))\<rparr>)))
          else Inl e)"

text \<open>The body of the \<open>try\<close> once the file has been read.\<close>

definition process_content ::
  "string \<Rightarrow> graph_client \<Rightarrow> bridge_config \<Rightarrow> note_env \<Rightarrow> string \<Rightarrow> world \<Rightarrow>
   (exn + result_dict option) \<times> world" where
  "process_content note_path graphiti config env content w =
     (let (metadata, text_content) = extract_frontmatter (yaml env) content;
          clean_text = extract_text_content env content;
          note_name = path_stem note_path
      in if get_truthy metadata ''private'' then (Inr None, w)
         else
           (let db_type = database_type config;
                reference_time = extract_reference_time (clk env) metadata db_type;
                gid = note_group_id note_path metadata config;
                instructions = resolve_instructions note_path config;
                saga = resolve_note_saga note_path metadata gid config;
                saga_previous_uuid =
                  (if nonempty saga \<noteq> None
                   then lookup_saga_previous_uuid (the saga)
                          (load_sync_records (vault_path config) (sync_json env))
                   else None);
                (graphiti_result, w') =
                  (if use_custom_ontology config
                   then create_custom_entity_episode graphiti (loaded_schema env) note_name
                          clean_text reference_time gid metadata db_type config instructions
                          saga saga_previous_uuid w
                   else create_generic_text_episode graphiti note_name clean_text
                          reference_time gid db_type config (Some metadata) instructions
                          saga saga_previous_uuid w)
            in case graphiti_result of
                 Inl e \<Rightarrow> (handle_exception env note_path e, w')
               | Inr None \<Rightarrow>
                   (Inr (Some ((empty_result note_path ''failed'')
                      \<lparr>res_namespace := Some gid,
                       res_reference_time := Some (isoformat reference_time),
                       res_error := Some ''Episode creation returned no result''\<rparr>)), w')
               | Inr (Some r) \<Rightarrow>
                   (Inr (Some ((empty_result note_path ''success'')
                      \<lparr>res_namespace := Some gid,
                       res_episode_uuid := gr_episode_uuid r,
                       res_saga_name := saga,
                       res_reference_time := Some (isoformat reference_time),
                       res_metrics := Some \<lparr>entities_count = gr_entities r,
                          relationships_count = gr_relationships r,
                          content_length = length clean_text,
                          metadata_fields = length metadata\<rparr>\<rparr>)), w')))"

text \<open>
  \<open>process_note\<close>: \<open>None\<close> for a file that does not validate; an exception raised
  while reading goes through the same \<open>except\<close> clauses.
\<close>

definition process_note ::
  "string \<Rightarrow> graph_client \<Rightarrow> bridge_config \<Rightarrow> note_env \<Rightarrow> world \<Rightarrow>
   (exn + result_dict option) \<times> world" where
  "process_note note_path graphiti config env w =
     (if \<not> file_valid env then (Inr None, w)
      else (case file_content env of
              Inl e \<Rightarrow> (handle_exception env note_path e, w)
            | Inr content \<Rightarrow> process_content note_path graphiti config env content w))"

section \<open>The WebSocket hub (mcp-server/websocket\_server.py)\<close>

text \<open>
  Python dicts are association lists in insertion order with distinct keys:
  \<open>d[k] = v\<close> is \<open>dict_set\<close>, \<open>del d[k]\<close> and \<open>d.pop(k, None)\<close> are \<open>dict_del\<close>,
  \<open>k in d\<close> is \<open>dict_has\<close>.
\<close>

definition dict_del :: "'k \<Rightarrow> ('k \<times> 'v) list \<Rightarrow> ('k \<times> 'v) list" where
  "dict_del k d = filter (\<lambda>kv. fst kv \<noteq> k) d"

definition dict_has :: "('k \<times> 'v) list \<Rightarrow> 'k \<Rightarrow> bool" where
  "dict_has d k = (map_of d k \<noteq> None)"

text \<open>
  JSON objects that are passed through are kept as association lists of strings. A
  message received from a vault with the keys \<open>handle_message\<close> reads; an absent key is
  \<open>None\<close>.
\<close>

type_synonym json_obj = "(string \<times> string) list"

record ws_message =
  msg_type :: "string option"
  msg_id :: "string option"
  msg_success :: "bool option"
  msg_payload :: "json_obj option"
  msg_error :: "string option"
  msg_timestamp :: "string option"

text \<open>The envelope a pending future is resolved with.\<close>

record response_data =
  rd_success :: bool
  rd_payload :: json_obj
  rd_error :: "string option"
  rd_timestamp :: "string option"

text \<open>An \<open>asyncio.Future\<close>: not done, done with a result, or cancelled.\<close>

datatype future_state = FPending | FResult response_data | FCancelled

definition future_done :: "future_state \<Rightarrow> bool" where
  "future_done f = (f \<noteq> FPending)"

text \<open>What the hub sends to a client.\<close>

datatype out_message =
    Connected string
  | Registered string bool
  | ErrorMessage string
  | FileRequest string string json_obj

text \<open>
  The state of \<open>WebSocketServer\<close>. A future is created once per request id, so
  \<open>pending_requests\<close> holds the request ids in insertion order and \<open>futures\<close> holds the
  state of the future of each request id ever created (the coroutine that awaits a
  future keeps it after its entry has left \<open>pending_requests\<close>). \<open>sent\<close> lists the
  messages sent, each with the client it went to.
\<close>

record hub =
  clients :: "string list"
  vault_info :: "(string \<times> json_obj) list"
  client_to_vault :: "(string \<times> string) list"
  vault_to_client :: "(string \<times> string) list"
  pending_requests :: "string list"
  futures :: "(string \<times> future_state) list"
  active_vault_id :: "string option"
  sent :: "(string \<times> out_message) list"

definition hub_init :: hub where
  "hub_init =
     \<lparr>clients = [], vault_info = [], client_to_vault = [], vault_to_client = [],
      pending_requests = [], futures = [], active_vault_id = None, sent = []\<rparr>"

definition future_of :: "hub \<Rightarrow> string \<Rightarrow> future_state" where
  "future_of h request_id = (case map_of (futures h) request_id of None \<Rightarrow> FPending | Some f \<Rightarrow> f)"

text \<open>\<open>send_to_client\<close>: nothing is sent to a client that is not connected.\<close>

definition send_to_client :: "string \<Rightarrow> out_message \<Rightarrow> hub \<Rightarrow> hub" where
  "send_to_client client_id m h =
     (if client_id \<in> set (clients h) then h\<lparr>sent := sent h @ [(client_id, m)]\<rparr> else h)"

text \<open>\<open>websocket_handler\<close> up to the message loop, for a request that passed authentication.\<close>

definition connect :: "string \<Rightarrow> hub \<Rightarrow> hub" where
  "connect client_id h =
     (let h1 = h\<lparr>clients := (if client_id \<in> set (clients h) then clients h
                               else clients h @ [client_id])\<rparr>
      in h1\<lparr>sent := sent h1 @ [(client_id, Connected client_id)]\<rparr>)"

text \<open>\<open>handle_message\<close>\<close>

definition handle_message :: "string \<Rightarrow> ws_message \<Rightarrow> hub \<Rightarrow> hub" where
  "handle_message client_id message h =
     (if msg_type message = Some ''register''
      then (let payload = (case msg_payload message of None \<Rightarrow> [] | Some p \<Rightarrow> p);
                vault_name = (case map_of payload ''vaultName'' of None \<Rightarrow> [] | Some n \<Rightarrow> n);
                vault_id = (if vault_name \<noteq> [] then vault_name else ''vault_'' @ client_id);
                h1 = h\<lparr>vault_info := dict_set client_id payload (vault_info h),
                       client_to_vault := dict_set client_id vault_id (client_to_vault h),
                       vault_to_client := dict_set vault_id client_id (vault_to_client h)\<rparr>;
                h2 = (if nonempty (active_vault_id h1) = None
                      then h1\<lparr>active_vault_id := Some vault_id\<rparr> else h1)
            in send_to_client client_id
                 (Registered vault_id (Some vault_id = active_vault_id h2)) h2)
      else if msg_type message = Some ''pong'' then h
      else if nonempty (msg_type message) \<noteq> None \<and> contains (the (msg_type message)) ''response'' \<and>
              msg_id message \<noteq> None
      then (let request_id = the (msg_id message)
            in if request_id \<noteq> [] \<and> request_id \<in> set (pending_requests h)
               then (let h1 = h\<lparr>pending_requests := removeAll request_id (pending_requests h)\<rparr>
                     in if \<not> future_done (future_of h request_id)
                        then h1\<lparr>futures := dict_set request_id
                               (FResult \<lparr>rd_success = (case msg_success message of None \<Rightarrow> False | Some b \<Rightarrow> b),
                                         rd_payload = (case msg_payload message of None \<Rightarrow> [] | Some p \<Rightarrow> p),
                                         rd_error = msg_error message,
                                         rd_timestamp = msg_timestamp message\<rparr>)
                               (futures h1)\<rparr>
                        else h1)
               else h)
      else send_to_client client_id
             (ErrorMessage (''Unknown message type: '' @
                (case msg_type message of None \<Rightarrow> ''None'' | Some t \<Rightarrow> t))) h)"

text \<open>
  The \<open>finally\<close> block of \<open>websocket_handler\<close>, run when a client disconnects. The
  last part collects every request id of \<open>pending_requests\<close> whose future is not done,
  removes each from the map and cancels its future.
\<close>

definition cancel_requests :: "string list \<Rightarrow> hub \<Rightarrow> hub" where
  "cancel_requests requests_to_cancel h =
     fold (\<lambda>request_id g.
             if request_id \<in> set (pending_requests g)
             then (let g1 = g\<lparr>pending_requests := removeAll request_id (pending_requests g)\<rparr>
                   in if \<not> future_done (future_of g request_id)
                      then g1\<lparr>futures := dict_set request_id FCancelled (futures g1)\<rparr>
                      else g1)
             else g)
       requests_to_cancel h"

definition disconnect :: "string \<Rightarrow> hub \<Rightarrow> hub" where
  "disconnect client_id h =
     (let h1 = h\<lparr>clients := removeAll client_id (clients h),
                 vault_info := dict_del client_id (vault_info h)\<rparr>;
          h2 = (case map_of (client_to_vault h1) client_id of
                  None \<Rightarrow> h1
                | Some vault_id \<Rightarrow>
                    (let g = h1\<lparr>client_to_vault := dict_del client_id (client_to_vault h1),
                               vault_to_client := dict_del vault_id (vault_to_client h1)\<rparr>
                     in if active_vault_id g = Some vault_id
                        then g\<lparr>active_vault_id :=
                               (case map fst (vault_to_client g) of [] \<Rightarrow> None | v # _ \<Rightarrow> Some v)\<rparr>
                        else g));
          requests_to_cancel =
            filter (\<lambda>request_id. \<not> future_done (future_of h2 request_id)) (pending_requests h2)
      in cancel_requests requests_to_cancel h2)"

text \<open>
  \<open>request_file_operation\<close> up to the \<open>await\<close>: the client of the vault is looked up
  (with the legacy lookup through \<open>vault_info\<close>); without a connected client nothing
  changes and the caller gets \<open>None\<close>; otherwise the future of the fresh request id is
  registered and the request sent. The result names the client the request went to.
\<close>

definition client_for_vault :: "hub \<Rightarrow> string \<Rightarrow> string option" where
  "client_for_vault h vault_id =
     (case nonempty (map_of (vault_to_client h) vault_id) of
        Some client_id \<Rightarrow> Some client_id
      | None \<Rightarrow>
          map_option fst
            (find (\<lambda>(cid, info). map_of info ''vaultName'' = Some vault_id \<or> cid = vault_id)
               (vault_info h)))"

definition begin_request ::
  "string \<Rightarrow> string \<Rightarrow> json_obj \<Rightarrow> string \<Rightarrow> hub \<Rightarrow> string option \<times> hub" where
  "begin_request vault_id operation params request_id h =
     (case nonempty (client_for_vault h vault_id) of
        None \<Rightarrow> (None, h)
      | Some client_id \<Rightarrow>
          if client_id \<notin> set (clients h) then (None, h)
          else (let h1 = h\<lparr>pending_requests :=
                             (if request_id \<in> set (pending_requests h) then pending_requests h
                              else pending_requests h @ [request_id]),
                           futures := dict_set request_id FPending (futures h)\<rparr>
                in (Some client_id, send_to_client client_id
                      (FileRequest request_id operation params) h1)))"

text \<open>
  \<open>request_file_operation\<close> from the \<open>await\<close> on: the coroutine resumes with the
  result of its future, with a cancellation, or, the future still not done, with the
  timeout of \<open>asyncio.wait_for\<close>, which cancels the future. The \<open>finally\<close> clause
  removes the request id from \<open>pending_requests\<close> in every case.
\<close>

datatype request_outcome = Reply response_data | TimedOut string | CancelledError

definition end_request :: "string \<Rightarrow> hub \<Rightarrow> request_outcome \<times> hub" where
  "end_request request_id h =
     (let h1 = h\<lparr>pending_requests := removeAll request_id (pending_requests h)\<rparr>
      in case future_of h request_id of
           FResult r \<Rightarrow> (Reply r, h1)
         | FCancelled \<Rightarrow> (CancelledError, h1)
         | FPending \<Rightarrow>
             (TimedOut request_id, h1\<lparr>futures := dict_set request_id FCancelled (futures h1)\<rparr>))"

text \<open>The events of the hub and the state they lead to.\<close>

datatype hub_event =
    Connect string
  | Message string ws_message
  | Disconnect string
  | BeginRequest string string json_obj string
  | EndRequest string

fun hub_step :: "hub \<Rightarrow> hub_event \<Rightarrow> hub" where
  "hub_step h (Connect client_id) = connect client_id h"
| "hub_step h (Message client_id message) = handle_message client_id message h"
| "hub_step h (Disconnect client_id) = disconnect client_id h"
| "hub_step h (BeginRequest vault_id operation params request_id) =
     snd (begin_request vault_id operation params request_id h)"
| "hub_step h (EndRequest request_id) = snd (end_request request_id h)"

definition hub_run :: "hub_event list \<Rightarrow> hub" where
  "hub_run events = foldl hub_step hub_init events"

section \<open>The HTTP RPC endpoint (mcp-server/websocket\_server.py)\<close>

text \<open>\<open>s.replace(old, '')\<close>: every occurrence of \<open>old\<close>, from the left, is removed.\<close>

function remove_all :: "string \<Rightarrow> string \<Rightarrow> string" where
  "remove_all old s =
     (if s = [] \<or> old = [] then s
      else if startswith s old then remove_all old (drop (length old) s)
      else hd s # remove_all old (tl s))"
  by pat_completeness auto
termination
  by (relation "measure (\<lambda>(old, s). length s)") auto

declare remove_all.simps [simp del]

text \<open>
  A \<open>POST /rpc\<close> request as the handler reads it: the \<open>Authorization\<close> header, the
  \<open>token\<close> query parameter, the \<open>Content-Length\<close> header (absent for a body sent in
  chunks; the HTTP layer admits decimal numbers only) and the body.
\<close>

record rpc_request =
  rq_authorization :: "string option"
  rq_query_token :: "string option"
  rq_content_length :: "nat option"
  rq_body :: string

text \<open>
  The JSON object of the body: \<open>operation\<close>, \<open>vaultId\<close>, \<open>params\<close> and \<open>timeoutMs\<close>
  (milliseconds, a natural number here). Reading and decoding the body is the HTTP
  library's work, a parameter: it raises \<open>JSONDecodeError\<close>, raises something else, or
  gives the object.
\<close>

record rpc_data =
  rpc_operation :: "string option"
  rpc_vaultId :: "string option"
  rpc_params :: json_obj
  rpc_timeoutMs :: "nat option"

datatype body_parse = JSONDecodeError | BodyError string | Parsed rpc_data

text \<open>
  What \<open>request_file_operation\<close> gives the handler: \<open>None\<close>, a result dictionary, or an
  exception (\<open>asyncio.TimeoutError\<close> or another one). It is a parameter here, the
  hub above models it.
\<close>

record rfo_result =
  rfo_success :: "bool option"
  rfo_payload :: "json_obj option"
  rfo_error :: "string option"
  rfo_timestamp :: "string option"

datatype rfo_outcome = RfoNone | RfoResult rfo_result | RfoTimeoutError | RfoRaises string

text \<open>
  The handler's answer: the HTTP status and the \<open>error\<close> text of the JSON body, with
  what the handler did on the way: whether it asked for the body to be decoded, and the
  call of \<open>request_file_operation\<close> it made, if any (vault, operation, parameters,
  timeout in milliseconds).
\<close>

record rpc_response =
  http_status :: nat
  http_error :: "string option"
  http_success :: "bool option"
  http_result :: "json_obj option"
  body_parsed :: bool
  dispatched :: "(string option \<times> string \<times> json_obj \<times> nat) option"

definition rpc_reply :: "nat \<Rightarrow> string option \<Rightarrow> rpc_response" where
  "rpc_reply status err =
     \<lparr>http_status = status, http_error = err, http_success = None, http_result = None,
      body_parsed = False, dispatched = None\<rparr>"

text \<open>The token of a request: the header without \<open>Bearer \<close>, else the query parameter.\<close>

definition request_token :: "rpc_request \<Rightarrow> string" where
  "request_token request =
     (let token = remove_all ''Bearer ''
                    (case rq_authorization request of None \<Rightarrow> [] | Some a \<Rightarrow> a)
      in if token = [] then (case rq_query_token request of None \<Rightarrow> [] | Some t \<Rightarrow> t)
         else token)"

definition max_payload :: nat where
  "max_payload = 2 * 1024 * 1024"

definition rpc_handler ::
  "string \<Rightarrow> (string \<Rightarrow> body_parse) \<Rightarrow>
   (string option \<Rightarrow> string \<Rightarrow> json_obj \<Rightarrow> nat \<Rightarrow> rfo_outcome) \<Rightarrow> rpc_request \<Rightarrow> rpc_response" where
  "rpc_handler auth_token request_json request_file_operation request =
     (if auth_token \<noteq> [] \<and> request_token request \<noteq> auth_token
      then rpc_reply 401 (Some ''Unauthorized'')
      else if (case rq_content_length request of None \<Rightarrow> False | Some n \<Rightarrow> n > max_payload)
      then rpc_reply 413 (Some ''Payload too large'')
      else (case request_json (rq_body request) of
              JSONDecodeError \<Rightarrow> (rpc_reply 400 (Some ''Invalid JSON''))\<lparr>body_parsed := True\<rparr>
            | BodyError m \<Rightarrow>
                (rpc_reply 500 (Some m))\<lparr>body_parsed := True, http_success := Some False\<rparr>
            | Parsed data \<Rightarrow>
                (case nonempty (rpc_operation data) of
                   None \<Rightarrow> (rpc_reply 400 (Some ''Missing operation''))\<lparr>body_parsed := True\<rparr>
                 | Some operation \<Rightarrow>
                     (let timeout = min (case rpc_timeoutMs data of
                                           None \<Rightarrow> 20000
                                         | Some t \<Rightarrow> if t = 0 then 20000 else t) 30000;
                          call = (rpc_vaultId data, operation, rpc_params data, timeout);
                          done = (\<lambda>r. r\<lparr>body_parsed := True, dispatched := Some call\<rparr>)
                      in case request_file_operation (rpc_vaultId data) operation
                                (rpc_params data) timeout of
                           RfoNone \<Rightarrow>
                             done ((rpc_reply 404
                               (Some (''No connected vault found: '' @
                                  (case rpc_vaultId data of None \<Rightarrow> ''None'' | Some v \<Rightarrow> v))))
                               \<lparr>http_success := Some False\<rparr>)
                         | RfoResult r \<Rightarrow>
                             done ((rpc_reply 200 (rfo_error r))
                               \<lparr>http_success := Some (case rfo_success r of None \<Rightarrow> False | Some b \<Rightarrow> b),
                                http_result := rfo_payload r\<rparr>)
                         | RfoTimeoutError \<Rightarrow>
                             done ((rpc_reply 504 (Some ''Request timeout''))
                               \<lparr>http_success := Some False\<rparr>)
                         | RfoRaises m \<Rightarrow>
                             done ((rpc_reply 500 (Some m))\<lparr>http_success := Some False\<rparr>)))))"

section \<open>Concrete inputs\<close>


text \<open>
  The configuration of the spec's namespace scenario: folder namespacing on, one
  mapping from \<open>Projects/2025\<close> to the group \<open>p25\<close>, default namespace \<open>books\<close>.
\<close>

definition scenario_config :: bridge_config where
  "scenario_config =
     \<lparr>vault_path = None, database_type = ''neo4j'', use_custom_ontology = False,
      default_namespace = ''books'', enable_folder_namespacing = True,
      enable_property_namespacing = False, namespace_strategy = ''vault'',
      folder_namespace_mappings =
        [\<lparr>folderPath = ''Projects/2025'', groupId = ''p25'',
          customExtractionInstructions = None, sagaGrouping = None, sagaPropertyKey = None\<rparr>],
      source_description = None, group_id = None, global_extraction_instructions = None,
      previous_episode_uuids = []\<rparr>"

text \<open>
  Two clients \<open>A\<close> and \<open>B\<close> connect and register the vaults \<open>VA\<close> and \<open>VB\<close>; a file
  operation is then requested from \<open>VA\<close> under the request id \<open>r1\<close>.
\<close>

definition register_message :: "string \<Rightarrow> ws_message" where
  "register_message v =
     \<lparr>msg_type = Some ''register'', msg_id = None, msg_success = None,
      msg_payload = Some [(''vaultName'', v)], msg_error = None, msg_timestamp = None\<rparr>"

definition two_vault_events :: "hub_event list" where
  "two_vault_events =
     [Connect ''A'', Message ''A'' (register_message ''VA''),
      Connect ''B'', Message ''B'' (register_message ''VB''),
      BeginRequest ''VA'' ''read_file'' [] ''r1'']"

text \<open>
  A provider message that carries both a reset time and a retry-after marker, read
  one minute before the reset.
\<close>

definition sentinel_now :: pydatetime where
  "sentinel_now =
     \<lparr>dt_year = 2030, dt_month = 1, dt_day = 2, dt_hour = 3, dt_minute = 3, dt_second = 0,
      dt_microsecond = 0, dt_tzinfo = Some 0\<rparr>"

definition sentinel_text :: string where
  "sentinel_text =
     ''rate limit. You will regain access on 2030-01-02 at 03:04 UTC. retry-after: 5''"

definition reset_instant :: pydatetime where
  "reset_instant =
     \<lparr>dt_year = 2030, dt_month = 1, dt_day = 2, dt_hour = 3, dt_minute = 4, dt_second = 0,
      dt_microsecond = 0, dt_tzinfo = None\<rparr>"

text \<open>
  A note without frontmatter, a readable file, no YAML facility, a clock, and a graph
  client whose every call raises the given exception.
\<close>

definition plain_clock :: clock where
  "plain_clock =
     \<lparr>now_local = \<lparr>dt_year = 2030, dt_month = 1, dt_day = 2, dt_hour = 5, dt_minute = 3,
                    dt_second = 0, dt_microsecond = 0, dt_tzinfo = None\<rparr>,
      now_utc = sentinel_now\<rparr>"

definition plain_env :: "string \<Rightarrow> note_env" where
  "plain_env content =
     \<lparr>file_valid = True, file_content = Inr content, yaml = None,
      clean_markdown = (\<lambda>t. t), clk = plain_clock, error_now = sentinel_now,
      sync_json = FileMissing, loaded_schema = Inr \<lparr>entity_types = [], edge_types = [],
      edge_type_map = []\<rparr>\<rparr>"

definition raising_client :: "exn \<Rightarrow> graph_client" where
  "raising_client e = (\<lambda>n kw. Raises e)"

definition world_init :: world where
  "world_init = \<lparr>submitted = [], warnings = []\<rparr>"

text \<open>A note whose frontmatter marks it private.\<close>

definition private_note :: string where
  "private_note = ''---'' @ [NL] @ ''private: true'' @ [NL] @ ''---'' @ [NL] @ ''body''"

text \<open>
  Two authenticated \<open>POST /rpc\<close> requests with a body of 2 MiB and one byte: one sent
  in chunks, without a \<open>Content-Length\<close> header, and one that declares its length. The
  body is no JSON, and no vault is connected.
\<close>

definition big_body :: string where
  "big_body = replicate (max_payload + 1) CHR ''x''"

definition chunked_request :: rpc_request where
  "chunked_request =
     \<lparr>rq_authorization = Some ''Bearer tok'', rq_query_token = None,
      rq_content_length = None, rq_body = big_body\<rparr>"

definition declared_request :: rpc_request where
  "declared_request =
     \<lparr>rq_authorization = Some ''Bearer tok'', rq_query_token = None,
      rq_content_length = Some (max_payload + 1), rq_body = big_body\<rparr>"

definition no_json :: "string \<Rightarrow> body_parse" where
  "no_json body = JSONDecodeError"

definition no_vault :: "string option \<Rightarrow> string \<Rightarrow> json_obj \<Rightarrow> nat \<Rightarrow> rfo_outcome" where
  "no_vault vault_id operation params timeout = RfoNone"












section \<open>Properties of the saga chain lookup\<close>







section \<open>Properties of the single-note pipeline\<close>

lemma generic_eq:
  "create_generic_text_episode graphiti note_name clean_text reference_time gid db_type config
     metadata instructions saga saga_previous_uuid w =
   (let kw = episode_kwargs_of note_name clean_text reference_time gid metadata db_type config
               instructions saga saga_previous_uuid None
    in (case graphiti (length (submitted w)) kw of Raises e \<Rightarrow> Inl e | Returns r \<Rightarrow> Inr r,
        w\<lparr>submitted := submitted w @ [kw]\<rparr>))"
  by (simp add: create_generic_text_episode_def add_episode_def Let_def
      split: add_outcome.splits)

lemma generic_raises:
  "\<forall>n kw. graphiti n kw = Raises e \<Longrightarrow>
   fst (create_generic_text_episode graphiti note_name clean_text reference_time gid db_type config
     metadata instructions saga saga_previous_uuid w) = Inl e"
  by (simp add: generic_eq Let_def)

lemma custom_raises:
  "\<forall>n kw. graphiti n kw = Raises e \<Longrightarrow>
   fst (create_custom_entity_episode graphiti loaded note_name clean_text reference_time gid metadata
     db_type config instructions saga saga_previous_uuid w) = Inl e"
  by (simp add: create_custom_entity_episode_def generic_eq add_episode_def
      Let_def split: sum.splits)

lemma process_note_raises:
  assumes "file_valid env" and "file_content env = Inr content"
    and "\<not> get_truthy (fst (extract_frontmatter (yaml env) content)) ''private''"
    and "\<forall>n kw. graphiti n kw = Raises e"
  shows "fst (process_note note_path graphiti config env w) = handle_exception env note_path e"
proof (cases "use_custom_ontology config")
  case True
  then show ?thesis
    using assms(1-3)
    by (simp add: process_note_def process_content_def Let_def split_beta
        custom_raises [OF assms(4)])
next
  case False
  then show ?thesis
    using assms(1-3)
    by (simp add: process_note_def process_content_def Let_def split_beta
        generic_raises [OF assms(4)])
qed

lemma body_not_private:
  "\<not> get_truthy (fst (extract_frontmatter None ''body'')) ''private''"
  by code_simp

lemma private_note_is_private:
  "get_truthy (fst (extract_frontmatter None private_note)) ''private''"
  by code_simp

text \<open>
  C9. A note whose extracted frontmatter holds a true \<open>private\<close> key is skipped: the
  pipeline returns no result, and the world is unchanged, so nothing was submitted to
  the graph and nothing logged.
\<close>

theorem private_note_skipped:
  assumes "file_content env = Inr content"
    and "get_truthy (fst (extract_frontmatter (yaml env) content)) ''private''"
  shows "process_note note_path graphiti config env w = (Inr None, w)"
  using assms by (simp add: process_note_def process_content_def Let_def split_beta)

theorem private_note_skipped_witness:
  "file_content (plain_env private_note) = Inr private_note \<and>
   get_truthy (fst (extract_frontmatter (yaml (plain_env private_note)) private_note)) ''private'' \<and>
   process_note ''diary.md'' (raising_client (OtherError ''unused'')) scenario_config
     (plain_env private_note) world_init = (Inr None, world_init)"
proof -
  have a: "file_content (plain_env private_note) = Inr private_note"
    by (simp add: plain_env_def)
  have b: "get_truthy (fst (extract_frontmatter (yaml (plain_env private_note)) private_note)) ''private''"
    using private_note_is_private by (simp add: plain_env_def)
  show ?thesis using a b private_note_skipped [OF a b] by simp
qed

section \<open>Properties of the rate-limit classification\<close>

lemma sentinel_regain:
  "regex_search match_regain_here sentinel_text = Some (''2030-01-02'', ''03:04'')"
  by code_simp

lemma strptime_reset_instant:
  "strptime ''2030-01-02 03:04'' fmt_minutes = Inr reset_instant"
  by code_simp

lemma utc_microseconds_sentinel_now:
  "utc_microseconds sentinel_now = 64029236580000000"
  by (simp add: sentinel_now_def utc_microseconds_def to_ordinal_def days_before_year_def
      days_before_month_def days_in_month_def is_leap_def upt_rec)

lemma utc_microseconds_reset_instant:
  "utc_microseconds (replace_tzinfo reset_instant timezone_utc) = 64029236640000000"
  by (simp add: reset_instant_def replace_tzinfo_def timezone_utc_def utc_microseconds_def
      to_ordinal_def days_before_year_def days_before_month_def days_in_month_def is_leap_def
      upt_rec)

lemma isoformat_reset_instant:
  "isoformat (replace_tzinfo reset_instant timezone_utc) = ''2030-01-02T03:04:00+00:00''"
  by code_simp

lemma sentinel_retry: "regex_search match_retry_here sentinel_text = Some 5"
  by code_simp

lemma sentinel_is_rate_limit: "is_rate_limit_text sentinel_text"
  by code_simp

lemma sentinel_first_line: "hd (split_on NL sentinel_text) = sentinel_text"
  by code_simp

lemma sentinel_reset_of_text:
  "reset_of_text sentinel_now sentinel_text = (60, Some (ResetIso ''2030-01-02T03:04:00+00:00''))"
  by (simp add: reset_of_text_def sentinel_regain strptime_reset_instant
      utc_microseconds_sentinel_now utc_microseconds_reset_instant isoformat_reset_instant)

lemma sentinel_rate_limit_fields:
  "rate_limit_fields sentinel_now sentinel_text = (5, Some (ResetIso ''2030-01-02T03:04:00+00:00''))"
  by (simp add: rate_limit_fields_def sentinel_reset_of_text sentinel_retry)

text \<open>
  C5, at the input where the code leaves the claimed priority. The provider text names
  a reset time one minute ahead and a retry-after marker. The reset time alone gives
  \<open>retry_after = 60\<close>; the pipeline returns a \<open>rate_limited\<close> result whose
  \<open>retry_after\<close> is the marker's 5, with the reset time in ISO 8601 and the first line
  of the provider text.
\<close>

theorem retry_after_marker_overrides_reset_time:
  "reset_of_text sentinel_now sentinel_text =
     (60, Some (ResetIso ''2030-01-02T03:04:00+00:00'')) \<and>
   fst (process_note ''n.md'' (raising_client (OtherError sentinel_text)) scenario_config
          (plain_env ''body'') world_init) =
     Inr (Some ((empty_result ''n.md'' ''rate_limited'')
       \<lparr>res_error := Some ''API rate limit exceeded - sync will pause until reset'',
        res_retry_after := Some 5,
        res_reset_time := Some (ResetIso ''2030-01-02T03:04:00+00:00''),
        res_provider_message := Some sentinel_text\<rparr>))"
proof -
  have v: "file_valid (plain_env ''body'')" and c: "file_content (plain_env ''body'') = Inr ''body''"
    by (simp_all add: plain_env_def)
  have p: "\<not> get_truthy (fst (extract_frontmatter (yaml (plain_env ''body'')) ''body'')) ''private''"
    using body_not_private by (simp add: plain_env_def)
  have r: "\<forall>n kw. raising_client (OtherError sentinel_text) n kw = Raises (OtherError sentinel_text)"
    by (simp add: raising_client_def)
  have "fst (process_note ''n.md'' (raising_client (OtherError sentinel_text)) scenario_config
          (plain_env ''body'') world_init) =
        handle_exception (plain_env ''body'') ''n.md'' (OtherError sentinel_text)"
    by (rule process_note_raises [OF v c p r])
  moreover have "error_now (plain_env ''body'') = sentinel_now"
    by (simp add: plain_env_def)
  ultimately show ?thesis
    by (simp add: handle_exception_def sentinel_is_rate_limit sentinel_rate_limit_fields
        sentinel_first_line sentinel_reset_of_text)
qed

section \<open>Properties of namespace resolution\<close>

text \<open>
  C1, at an input where the code leaves the claim. The note lies in the folder
  \<open>projects/2025\<close>, the mapping names \<open>Projects/2025\<close>: the folder path of the mapping
  is a case-insensitive prefix of the note's path, yet \<open>resolve_namespace\<close> returns
  the default namespace and not the mapping's group, while the saga loop of
  \<open>process_note\<close> does match the same mapping for the same note.
\<close>

theorem folder_mapping_is_case_sensitive:
  "resolve_namespace ''projects/2025/notes/today.md'' [] scenario_config = ''books'' \<and>
   find (folder_prefix_matches (vault_relative scenario_config ''projects/2025/notes/today.md''))
     (folder_namespace_mappings scenario_config) =
     Some (hd (folder_namespace_mappings scenario_config)) \<and>
   resolve_note_saga ''projects/2025/notes/today.md'' [(''type'', VStr ''daily'')] ''books''
     scenario_config = Some ''daily-books''"
  by code_simp

section \<open>Properties of the WebSocket hub\<close>

text \<open>
  C2, at an input where the code leaves the claim. The request \<open>r1\<close> was sent to
  client \<open>A\<close> and is pending; when the other client \<open>B\<close> disconnects, \<open>A\<close> stays
  connected, but \<open>r1\<close> is removed from the pending requests and its future cancelled.
\<close>

theorem disconnect_cancels_other_clients_requests:
  "fst (begin_request ''VA'' ''read_file'' [] ''r1'' (hub_run (butlast two_vault_events))) = Some ''A'' \<and>
   pending_requests (hub_run two_vault_events) = [''r1''] \<and>
   future_of (hub_run two_vault_events) ''r1'' = FPending \<and>
   ''A'' \<in> set (clients (hub_run (two_vault_events @ [Disconnect ''B'']))) \<and>
   pending_requests (hub_run (two_vault_events @ [Disconnect ''B''])) = [] \<and>
   future_of (hub_run (two_vault_events @ [Disconnect ''B''])) ''r1'' = FCancelled"
  by code_simp

section \<open>Properties of the RPC endpoint\<close>

lemma bearer_token: "remove_all ''Bearer '' ''Bearer tok'' = ''tok''"
  by code_simp

lemma big_body_length: "length big_body = max_payload + 1"
  by (simp add: big_body_def)

text \<open>
  C7 as stated fails: an authenticated request sent in chunks carries no
  \<open>Content-Length\<close> header, so a body above 2 MiB passes the size check, the handler
  asks for it to be decoded and the answer is not 413.
\<close>

theorem rpc_chunked_body_not_rejected:
  "length (rq_body chunked_request) > max_payload \<and>
   body_parsed (rpc_handler ''tok'' no_json no_vault chunked_request) \<and>
   http_status (rpc_handler ''tok'' no_json no_vault chunked_request) = 400"
  by (simp add: chunked_request_def big_body_length rpc_handler_def request_token_def
      bearer_token no_json_def rpc_reply_def)

text \<open>
  C7, amended. A request that passes authentication and whose \<open>Content-Length\<close> header
  declares more than 2 MiB is answered 413 before the body is decoded and before any
  call of \<open>request_file_operation\<close>, whatever the body, the decoder and the hub are; a
  request that fails authentication is answered 401, whatever its size.
\<close>

theorem rpc_declared_oversize_rejected:
  "((auth_token = [] \<or> request_token request = auth_token) \<and>
    rq_content_length request = Some n \<and> n > max_payload \<longrightarrow>
      http_status (rpc_handler auth_token request_json request_file_operation request) = 413 \<and>
      \<not> body_parsed (rpc_handler auth_token request_json request_file_operation request) \<and>
      dispatched (rpc_handler auth_token request_json request_file_operation request) = None) \<and>
   (auth_token \<noteq> [] \<and> request_token request \<noteq> auth_token \<longrightarrow>
      http_status (rpc_handler auth_token request_json request_file_operation request) = 401 \<and>
      \<not> body_parsed (rpc_handler auth_token request_json request_file_operation request) \<and>
      dispatched (rpc_handler auth_token request_json request_file_operation request) = None)"
  by (auto simp add: rpc_handler_def rpc_reply_def)

theorem rpc_declared_oversize_rejected_witness:
  "request_token declared_request = ''tok'' \<and>
   rq_content_length declared_request = Some (max_payload + 1) \<and>
   http_status (rpc_handler ''tok'' no_json no_vault declared_request) = 413 \<and>
   \<not> body_parsed (rpc_handler ''tok'' no_json no_vault declared_request) \<and>
   dispatched (rpc_handler ''tok'' no_json no_vault declared_request) = None"
proof -
  have t: "request_token declared_request = ''tok''"
    by (simp add: request_token_def declared_request_def bearer_token)
  have l: "rq_content_length declared_request = Some (max_payload + 1)"
    by (simp add: declared_request_def)
  show ?thesis
    using t l
      rpc_declared_oversize_rejected [of "''tok''" declared_request "max_payload + 1" no_json no_vault]
    by simp
qed

section \<open>Properties of frontmatter extraction\<close>
















section \<open>Properties of the custom-entity fallback\<close>




section \<open>Properties of the reference time\<close>

















end
